theory Spec2Isabelle
  imports Main "HOL-Library.Word" "HOL-Library.Sublist" "HOL-Library.AList"
begin

section \<open>JavaScript values the SDK handles\<close>

text \<open>
  Strings are lists of bytes. Everything the SDK throws is a value of \<open>exception\<close>:
  a plain \<open>new Error(message)\<close>, the engine's \<open>TypeError\<close>, or the SDK's own
  \<open>ZuthSDKError(message, statusCode, error, details)\<close> of \<open>src/types/index.ts\<close>.
  A function that can throw returns \<open>exception + 'a\<close>, with \<open>Inl\<close> for the throw.
\<close>

datatype json =
    JNull
  | JBool bool
  | JNum int
  | JStr string
  | JArr "json list"
  | JObj "(string \<times> json) list"

datatype exception =
    Error string
  | TypeError string
  | ZuthSDKError string int string "json option"

fun message :: "exception \<Rightarrow> string" where
  "message (Error m) = m"
| "message (TypeError m) = m"
| "message (ZuthSDKError m _ _ _) = m"

text \<open>Truthiness of a \<open>string | null | undefined\<close>: absent and the empty string are falsy.\<close>

fun truthy :: "string option \<Rightarrow> bool" where
  "truthy None = False"
| "truthy (Some s) = (s \<noteq> [])"

text \<open>The string itself, where a truthiness test has already passed.\<close>

fun the_string :: "string option \<Rightarrow> string" where
  "the_string None = []"
| "the_string (Some s) = s"

text \<open>\<open>a || b\<close> on an optional string with a string default.\<close>

fun or_else :: "string option \<Rightarrow> string \<Rightarrow> string" where
  "or_else None d = d"
| "or_else (Some s) d = (if s = [] then d else s)"

text \<open>\<open>String.prototype.includes\<close> and \<open>Array.prototype.join\<close>.\<close>

primrec str_includes :: "string \<Rightarrow> string \<Rightarrow> bool" where
  "str_includes [] pat = (pat = [])"
| "str_includes (c # cs) pat = (prefix pat (c # cs) \<or> str_includes cs pat)"

fun join :: "string list \<Rightarrow> string \<Rightarrow> string" where
  "join [] sep = []"
| "join [x] sep = x"
| "join (x # y # ys) sep = x @ sep @ join (y # ys) sep"

section \<open>The platform's URL class\<close>

text \<open>
  The fields of a parsed \<open>URL\<close> object that the SDK reads. \<open>searchParams\<close> is the
  query as the list of its name/value pairs, in order; \<open>searchParams.get(name)\<close>
  returns the first value of that name, or null.

  The parser itself (\<open>new URL(s)\<close>) belongs to the platform, not to the SDK: every
  function that parses takes it as the parameter \<open>new_URL\<close>. Where the constructor
  returns, its value is \<open>Inr\<close> of the URL object; where it throws, its value is
  \<open>Inl\<close> of the message of the \<open>TypeError\<close> it throws. That message is the
  engine's own: some engines use a fixed text, others quote the input in it.
\<close>

record URL =
  protocol :: string
  hostname :: string
  host :: string
  origin :: string
  pathname :: string
  searchParams :: "(string \<times> string) list"

definition searchParams_get :: "URL \<Rightarrow> string \<Rightarrow> string option" where
  "searchParams_get urlObj name = map_of (searchParams urlObj) name"

section \<open>Security utilities (\<open>src/security.ts\<close>)\<close>

definition insecure_url_message :: string where
  "insecure_url_message =
     ''Insecure URL detected. HTTPS is required in production. '' @
     ''Use https:// for your baseUrl in production environments.''"

text \<open>
  \<open>validateSecureUrl(url, allowLocalhost = true)\<close>. The inner \<open>case\<close> is the
  \<open>try\<close> block, the outer one the \<open>catch\<close> handler, which rethrows an error whose
  message contains \<open>Insecure URL\<close> and replaces any other (every value of
  \<open>exception\<close> is an \<open>instanceof Error\<close>). An omitted \<open>allowLocalhost\<close> is
  \<open>None\<close> and takes the default.
\<close>

definition validateSecureUrl ::
  "(string \<Rightarrow> string + URL) \<Rightarrow> string \<Rightarrow> bool option \<Rightarrow> exception + unit" where
  "validateSecureUrl new_URL url allowLocalhost_arg =
     (let allowLocalhost = (case allowLocalhost_arg of None \<Rightarrow> True | Some b \<Rightarrow> b) in
      case (case new_URL url of
              Inl parse_message \<Rightarrow> Inl (TypeError parse_message)
            | Inr urlObj \<Rightarrow>
                if allowLocalhost \<and>
                   (hostname urlObj = ''localhost'' \<or> hostname urlObj = ''127.0.0.1'')
                then Inr ()
                else if protocol urlObj \<noteq> ''https:''
                then Inl (Error insecure_url_message)
                else Inr ()) of
        Inl error \<Rightarrow>
          if str_includes (message error) ''Insecure URL'' then Inl error
          else Inl (Error (''Invalid URL: '' @ url))
      | Inr u \<Rightarrow> Inr u)"

definition redirect_not_allowed_message :: "string \<Rightarrow> string list \<Rightarrow> string" where
  "redirect_not_allowed_message redirectUri allowedOrigins =
     ''Redirect URI '' @ redirectUri @ '' is not in the allowed origins list. '' @
     ''Allowed origins: '' @ join allowedOrigins '', ''"

text \<open>
  \<open>validateRedirectUri(redirectUri, allowedOrigins)\<close>: the origin compared is
  \<open>protocol + "//" + host\<close>, and \<open>Array.prototype.includes\<close> on strings is list
  membership.
\<close>

definition validateRedirectUri ::
  "(string \<Rightarrow> string + URL) \<Rightarrow> string \<Rightarrow> string list \<Rightarrow> exception + unit" where
  "validateRedirectUri new_URL redirectUri allowedOrigins =
     (case (case new_URL redirectUri of
              Inl parse_message \<Rightarrow> Inl (TypeError parse_message)
            | Inr uriObj \<Rightarrow>
                (let origin' = protocol uriObj @ ''//'' @ host uriObj in
                 if origin' \<notin> set allowedOrigins
                 then Inl (Error (redirect_not_allowed_message redirectUri allowedOrigins))
                 else Inr ())) of
        Inl error \<Rightarrow>
          if str_includes (message error) ''Redirect URI'' then Inl error
          else Inl (Error (''Invalid redirect URI: '' @ redirectUri))
      | Inr u \<Rightarrow> Inr u)"

text \<open>
  \<open>generateOAuthState()\<close>. The random source is a parameter: \<open>rnd i\<close> is the byte
  the platform's generator writes at index \<open>i\<close> of the array (both branches of the
  source, \<open>crypto.getRandomValues\<close> and Node's \<open>crypto.randomFillSync\<close>, fill the
  same 32-byte array in place).
\<close>

definition Uint8Array :: "nat \<Rightarrow> 8 word list" where
  "Uint8Array n = replicate n 0"

definition getRandomValues :: "(nat \<Rightarrow> 8 word) \<Rightarrow> 8 word list \<Rightarrow> 8 word list" where
  "getRandomValues rnd array = map rnd [0..<length array]"

definition hex_digit :: "nat \<Rightarrow> char" where
  "hex_digit d = ''0123456789abcdef'' ! d"

text \<open>\<open>Number.prototype.toString(16)\<close> on a non-negative integer.\<close>

fun toString16 :: "nat \<Rightarrow> string" where
  "toString16 n =
     (if n < 16 then [hex_digit n] else toString16 (n div 16) @ [hex_digit (n mod 16)])"

declare toString16.simps [simp del]

text \<open>\<open>String.prototype.padStart(targetLength, padString)\<close>.\<close>

fun repeat_to :: "nat \<Rightarrow> string \<Rightarrow> string" where
  "repeat_to 0 fill = []"
| "repeat_to (Suc k) fill = fill @ repeat_to k fill"

definition padStart :: "string \<Rightarrow> nat \<Rightarrow> string \<Rightarrow> string" where
  "padStart s targetLength padString =
     (if targetLength \<le> length s \<or> padString = [] then s
      else take (targetLength - length s) (repeat_to (targetLength - length s) padString) @ s)"

definition generateOAuthState :: "(nat \<Rightarrow> 8 word) \<Rightarrow> string" where
  "generateOAuthState rnd =
     concat (map (\<lambda>byte. padStart (toString16 (unat byte)) 2 ''0'')
               (getRandomValues rnd (Uint8Array 32)))"

definition state_missing_message :: string where
  "state_missing_message = ''OAuth state parameter is missing. This may indicate a CSRF attack.''"

definition state_mismatch_message :: string where
  "state_mismatch_message = ''OAuth state parameter mismatch. This may indicate a CSRF attack.''"

text \<open>
  \<open>validateOAuthState(receivedState: string | null, originalState: string)\<close>:
  \<open>!receivedState\<close> holds of null and of the empty string; \<open>!==\<close> on two strings
  is inequality of their characters.
\<close>

definition validateOAuthState :: "string option \<Rightarrow> string \<Rightarrow> exception + unit" where
  "validateOAuthState receivedState originalState =
     (if \<not> truthy receivedState then Inl (Error state_missing_message)
      else if receivedState \<noteq> Some originalState then Inl (Error state_mismatch_message)
      else Inr ())"

text \<open>
  The rest of \<open>src/security.ts\<close>, used by \<open>ZuthAuth.login\<close>. Characters are bytes, so
  the whitespace class \<open>\s\<close> and \<open>trim\<close> are modelled on their ASCII members and
  \<open>toLowerCase\<close> on the ASCII letters.
\<close>

definition is_space :: "char \<Rightarrow> bool" where
  "is_space c = (c = CHR '' '' \<or> (9 \<le> (of_char c :: nat) \<and> (of_char c :: nat) \<le> 13))"

definition trim :: "string \<Rightarrow> string" where
  "trim s = rev (dropWhile is_space (rev (dropWhile is_space s)))"

definition toLowerCase :: "string \<Rightarrow> string" where
  "toLowerCase s =
     map (\<lambda>c. if 65 \<le> (of_char c :: nat) \<and> (of_char c :: nat) \<le> 90
              then char_of ((of_char c :: nat) + 32) else c) s"

text \<open>
  \<open>input.replace(/<[^>]*>/g, '')\<close>: scanning from the left, a \<open><\<close> that has a
  \<open>>\<close> somewhere after it is removed together with everything up to the first such
  \<open>>\<close>; a \<open><\<close> with no \<open>>\<close> after it stays.
\<close>

function remove_tags :: "string \<Rightarrow> string" where
  "remove_tags [] = []"
| "remove_tags (c # cs) =
     (if c = CHR ''<'' \<and> CHR ''>'' \<in> set cs
      then remove_tags (tl (dropWhile (\<lambda>x. x \<noteq> CHR ''>'') cs))
      else c # remove_tags cs)"
  by pat_completeness auto
termination
proof (relation "measure length")
  fix c :: char and cs :: string
  have "length (dropWhile (\<lambda>x. x \<noteq> CHR ''>'') cs) \<le> length cs"
    by (rule length_dropWhile_le)
  then show "(tl (dropWhile (\<lambda>x. x \<noteq> CHR ''>'') cs), c # cs) \<in> measure length"
    by simp
qed simp_all

definition sanitizeInput :: "string \<Rightarrow> string" where
  "sanitizeInput input =
     trim (filter (\<lambda>c. c \<notin> set [CHR ''<'', CHR ''>'', CHR 0x27, CHR 0x22]) (remove_tags input))"

text \<open>
  \<open>/^[^\s@]+@[^\s@]+\.[^\s@]+$/.test(email)\<close>: no whitespace, exactly one \<open>@\<close>
  with a non-empty part before it, and after it a part that has a dot which is neither
  its first nor its last character.
\<close>

definition isValidEmail :: "string \<Rightarrow> bool" where
  "isValidEmail email =
     (let local_part = takeWhile (\<lambda>c. c \<noteq> CHR ''@'') email;
          rest = dropWhile (\<lambda>c. c \<noteq> CHR ''@'') email
      in local_part \<noteq> [] \<and> \<not> list_ex is_space local_part \<and> rest \<noteq> [] \<and>
         (let domain_part = tl rest
          in \<not> list_ex (\<lambda>c. is_space c \<or> c = CHR ''@'') domain_part \<and>
             CHR ''.'' \<in> set (butlast (tl domain_part))))"

definition isValidPassword :: "string \<Rightarrow> nat option \<Rightarrow> bool" where
  "isValidPassword password minLength_arg =
     (length password \<ge> (case minLength_arg of None \<Rightarrow> 8 | Some n \<Rightarrow> n))"

section \<open>\<open>URLSearchParams\<close> serialisation\<close>

text \<open>
  \<open>URLSearchParams.prototype.toString()\<close> is the platform's
  \<open>application/x-www-form-urlencoded\<close> serialiser: a space becomes \<open>+\<close>; letters,
  digits and \<open>* - . _\<close> stay; every other byte becomes \<open>%\<close> and two upper-case
  hexadecimal digits; pairs are written \<open>name=value\<close> and joined by \<open>&\<close>.
\<close>

definition urlencoded_keep :: "char \<Rightarrow> bool" where
  "urlencoded_keep c =
     (let n = (of_char c :: nat)
      in (48 \<le> n \<and> n \<le> 57) \<or> (65 \<le> n \<and> n \<le> 90) \<or> (97 \<le> n \<and> n \<le> 122) \<or>
         n = 42 \<or> n = 45 \<or> n = 46 \<or> n = 95)"

definition HEX_digit :: "nat \<Rightarrow> char" where
  "HEX_digit d = ''0123456789ABCDEF'' ! d"

definition urlencoded_byte :: "char \<Rightarrow> string" where
  "urlencoded_byte c =
     (if c = CHR '' '' then ''+''
      else if urlencoded_keep c then [c]
      else [CHR ''%'', HEX_digit ((of_char c :: nat) div 16), HEX_digit ((of_char c :: nat) mod 16)])"

definition urlencoded_string :: "string \<Rightarrow> string" where
  "urlencoded_string s = concat (map urlencoded_byte s)"

definition URLSearchParams_toString :: "(string \<times> string) list \<Rightarrow> string" where
  "URLSearchParams_toString params =
     join (map (\<lambda>(name, v). urlencoded_string name @ ''='' @ urlencoded_string v) params) ''&''"

section \<open>Types (\<open>src/types/index.ts\<close>)\<close>

text \<open>
  An optional field is an \<open>option\<close>. Where two interfaces of the source share a field
  name, one of the two fields carries a prefix here.
\<close>

record ZuthConfig =
  baseUrl :: string
  cfg_clientId :: "string option"
  cfg_clientSecret :: "string option"
  cfg_redirectUri :: "string option"
  timeout :: "int option"
  headers :: "(string \<times> string) list option"

record LoginRequest =
  email :: string
  password :: string

record LoginResponse =
  login_access_token :: string
  user :: json
  device :: "json option"

record OAuthAuthorizeParams =
  clientId :: string
  redirectUri :: string
  responseType :: "string option"
  scope :: "string option"
  state :: "string option"

record OAuthAuthorizationResult =
  url :: string
  result_state :: string

record OAuthTokenRequest =
  code :: string
  req_clientId :: string
  req_clientSecret :: "string option"
  req_redirectUri :: string
  grantType :: "string option"

record OAuthTokenResponse =
  access_token :: string
  token_type :: string
  expires_in :: int
  refresh_token :: "string option"
  token_scope :: "string option"
  id_token :: "string option"

text \<open>
  \<open>ZuthError\<close> is the body of an error response. The interface declares its fields
  as required, but the client reads each one behind \<open>||\<close>, so each may be missing.
\<close>

record ZuthError =
  zerr_error :: "string option"
  zerr_message :: "string option"
  zerr_statusCode :: "int option"
  details :: "json option"

section \<open>The HTTP library\<close>

text \<open>
  What the client reads of an \<open>AxiosError\<close>: \<open>response\<close> when the server answered
  (its HTTP \<open>status\<close> and its body \<open>response_data\<close>, \<open>None\<close> when the body is null),
  whether a \<open>request\<close> object is present, and the error's own \<open>message\<close>. A body
  that is a string, a number or a boolean has none of the fields: it is the payload with
  every field missing.
\<close>

record AxiosResponse =
  status :: int
  response_data :: "ZuthError option"

record AxiosError =
  response :: "AxiosResponse option"
  request :: bool
  axios_message :: string

datatype http_method = GET | POST | PUT | DELETE

text \<open>The bodies the modelled operations send.\<close>

datatype request_data =
    NoData
  | LoginData LoginRequest
  | TokenData OAuthTokenRequest string
    \<comment> \<open>\<open>{...data, grant_type}\<close>\<close>
  | RefreshData string string string
    \<comment> \<open>\<open>{grant_type, refresh_token, client_id}\<close>\<close>

record AxiosRequestConfig =
  req_method :: http_method
  req_baseURL :: string
  req_url :: string
  req_timeout :: int
  req_headers :: "(string \<times> string) list"
  data :: request_data

record AxiosInstance =
  baseURL :: string
  default_timeout :: int
  default_headers :: "(string \<times> string) list"

text \<open>
  Objects with string keys are association lists in insertion order; assigning a key or
  spreading another object over it is \<open>AList.update\<close>, which overwrites in place and
  appends a new key.
\<close>

definition object_spread ::
  "(string \<times> string) list \<Rightarrow> (string \<times> string) list \<Rightarrow> (string \<times> string) list" where
  "object_spread base extra = fold (\<lambda>(k, v). AList.update k v) extra base"

definition axios_create :: "ZuthConfig \<Rightarrow> AxiosInstance" where
  "axios_create config =
     \<lparr> baseURL = baseUrl config,
       default_timeout = (case timeout config of None \<Rightarrow> 30000
                          | Some t \<Rightarrow> if t = 0 then 30000 else t),
       default_headers =
         object_spread [(''Content-Type'', ''application/json'')]
           (case headers config of None \<Rightarrow> [] | Some hs \<Rightarrow> hs) \<rparr>"

section \<open>The transport (\<open>src/client.ts\<close>)\<close>

record ZuthClient =
  config :: ZuthConfig
  axiosInstance :: AxiosInstance
  accessToken :: "string option"

definition ZuthClient_new :: "ZuthConfig \<Rightarrow> ZuthClient" where
  "ZuthClient_new cfg =
     \<lparr> config = cfg, axiosInstance = axios_create cfg, accessToken = None \<rparr>"

text \<open>The request interceptor: \<open>if (this.accessToken)\<close> adds the bearer header.\<close>

definition request_interceptor :: "ZuthClient \<Rightarrow> AxiosRequestConfig \<Rightarrow> AxiosRequestConfig" where
  "request_interceptor c cfg =
     (case accessToken c of
        None \<Rightarrow> cfg
      | Some token \<Rightarrow>
          if token \<noteq> []
          then cfg\<lparr>req_headers := AList.update ''Authorization'' (''Bearer '' @ token) (req_headers cfg)\<rparr>
          else cfg)"

text \<open>
  The response interceptor's error handler: what it throws for an \<open>AxiosError\<close>.
  Reading \<open>.message\<close> of a null body is the engine's \<open>TypeError\<close>.
\<close>

definition response_rejected :: "AxiosError \<Rightarrow> exception" where
  "response_rejected error =
     (case response error of
        Some r \<Rightarrow>
          (case response_data r of
             None \<Rightarrow> TypeError ''Cannot read properties of null (reading 'message')''
           | Some zuthError \<Rightarrow>
               ZuthSDKError
                 (or_else (zerr_message zuthError) ''An error occurred'')
                 (case zerr_statusCode zuthError of
                    None \<Rightarrow> status r
                  | Some n \<Rightarrow> if n = 0 then status r else n)
                 (or_else (zerr_error zuthError) ''UnknownError'')
                 (details zuthError))
      | None \<Rightarrow>
          if request error
          then ZuthSDKError ''Network error: Unable to reach the server'' 0 ''NetworkError'' None
          else ZuthSDKError
                 (if axios_message error = [] then ''An unexpected error occurred''
                  else axios_message error)
                 0 ''UnknownError'' None)"

definition client_setAccessToken :: "string option \<Rightarrow> ZuthClient \<Rightarrow> ZuthClient" where
  "client_setAccessToken token c = c\<lparr>accessToken := token\<rparr>"

definition client_getAccessToken :: "ZuthClient \<Rightarrow> string option" where
  "client_getAccessToken c = accessToken c"

definition client_clearAccessToken :: "ZuthClient \<Rightarrow> ZuthClient" where
  "client_clearAccessToken c = c\<lparr>accessToken := None\<rparr>"

definition client_getBaseUrl :: "ZuthClient \<Rightarrow> string" where
  "client_getBaseUrl c = baseUrl (config c)"

text \<open>
  The state an operation runs in: the one client object that the facade, \<open>ZuthAuth\<close>
  and \<open>ZuthOAuth\<close> share, the requests handed to the HTTP adapter so far (oldest
  first), and the lines written with \<open>console.warn\<close>.

  The remote server is the parameter \<open>adapter\<close>: for a request as it leaves the request
  interceptor it gives the decoded body of a successful response, or the \<open>AxiosError\<close>
  the library rejects with. The optional per-request \<open>config\<close> of \<open>get\<close>,
  \<open>post\<close>, \<open>put\<close> and \<open>delete\<close> is left out: no caller in the SDK passes it.
\<close>

record runtime =
  client :: ZuthClient
  dispatched :: "AxiosRequestConfig list"
  console :: "string list"

definition axios_request ::
  "(AxiosRequestConfig \<Rightarrow> AxiosError + 'a) \<Rightarrow> http_method \<Rightarrow> string \<Rightarrow> request_data \<Rightarrow>
   runtime \<Rightarrow> (exception + 'a) \<times> runtime" where
  "axios_request adapter m path body rt =
     (let inst = axiosInstance (client rt);
          cfg = request_interceptor (client rt)
                  \<lparr> req_method = m, req_baseURL = baseURL inst, req_url = path,
                    req_timeout = default_timeout inst, req_headers = default_headers inst,
                    data = body \<rparr>;
          rt' = rt\<lparr>dispatched := dispatched rt @ [cfg]\<rparr>
      in case adapter cfg of
           Inr response_body \<Rightarrow> (Inr response_body, rt')
         | Inl error \<Rightarrow> (Inl (response_rejected error), rt'))"

definition client_get ::
  "(AxiosRequestConfig \<Rightarrow> AxiosError + 'a) \<Rightarrow> string \<Rightarrow> runtime \<Rightarrow> (exception + 'a) \<times> runtime" where
  "client_get adapter path rt = axios_request adapter GET path NoData rt"

definition client_post ::
  "(AxiosRequestConfig \<Rightarrow> AxiosError + 'a) \<Rightarrow> string \<Rightarrow> request_data \<Rightarrow> runtime \<Rightarrow>
   (exception + 'a) \<times> runtime" where
  "client_post adapter path body rt = axios_request adapter POST path body rt"

definition client_put ::
  "(AxiosRequestConfig \<Rightarrow> AxiosError + 'a) \<Rightarrow> string \<Rightarrow> request_data \<Rightarrow> runtime \<Rightarrow>
   (exception + 'a) \<times> runtime" where
  "client_put adapter path body rt = axios_request adapter PUT path body rt"

definition client_delete ::
  "(AxiosRequestConfig \<Rightarrow> AxiosError + 'a) \<Rightarrow> string \<Rightarrow> runtime \<Rightarrow> (exception + 'a) \<times> runtime" where
  "client_delete adapter path rt = axios_request adapter DELETE path NoData rt"

section \<open>Password login (\<open>src/auth.ts\<close>)\<close>

definition login ::
  "(AxiosRequestConfig \<Rightarrow> AxiosError + LoginResponse) \<Rightarrow> LoginRequest \<Rightarrow> runtime \<Rightarrow>
   (exception + LoginResponse) \<times> runtime" where
  "login adapter d rt =
     (if \<not> isValidEmail (email d) then (Inl (Error ''Invalid email format''), rt)
      else
        let sanitizedData =
              \<lparr> email = sanitizeInput (trim (toLowerCase (email d))), password = password d \<rparr>
        in case client_post adapter ''/auth/login'' (LoginData sanitizedData) rt of
             (Inl e, rt') \<Rightarrow> (Inl e, rt')
           | (Inr response', rt') \<Rightarrow>
               (Inr response',
                rt'\<lparr>client := client_setAccessToken (Some (login_access_token response')) (client rt')\<rparr>))"

text \<open>\<open>logout\<close>: the \<open>finally\<close> block clears the token whether or not the request failed.\<close>

definition logout ::
  "(AxiosRequestConfig \<Rightarrow> AxiosError + 'a) \<Rightarrow> runtime \<Rightarrow> (exception + unit) \<times> runtime" where
  "logout adapter rt =
     (case client_post adapter ''/auth/logout'' NoData rt of
        (r, rt') \<Rightarrow>
          (case r of Inl e \<Rightarrow> Inl e | Inr _ \<Rightarrow> Inr (),
           rt'\<lparr>client := client_clearAccessToken (client rt')\<rparr>))"

section \<open>The OAuth coordinator (\<open>ZuthOAuth\<close>)\<close>

text \<open>
  \<open>getAuthorizationUrl(params, allowedOrigins?)\<close>, in the version that validates the
  redirect URI and returns the state. The validation runs under
  \<open>allowedOrigins && allowedOrigins.length > 0\<close>.
\<close>

definition getAuthorizationUrl ::
  "(string \<Rightarrow> string + URL) \<Rightarrow> (nat \<Rightarrow> 8 word) \<Rightarrow> OAuthAuthorizeParams \<Rightarrow> string list option \<Rightarrow>
   ZuthClient \<Rightarrow> exception + OAuthAuthorizationResult" where
  "getAuthorizationUrl new_URL rnd params allowedOrigins c =
     (case (case allowedOrigins of
              None \<Rightarrow> Inr ()
            | Some origins \<Rightarrow>
                if length origins > 0 then validateRedirectUri new_URL (redirectUri params) origins
                else Inr ()) of
        Inl e \<Rightarrow> Inl e
      | Inr _ \<Rightarrow>
          (let state' = or_else (state params) (generateOAuthState rnd);
               baseUrl' = client_getBaseUrl c;
               queryParams =
                 [ (''client_id'', clientId params),
                   (''redirect_uri'', redirectUri params),
                   (''response_type'', or_else (responseType params) ''code''),
                   (''scope'', or_else (scope params) ''openid profile email''),
                   (''state'', state') ]
           in Inr \<lparr> url = baseUrl' @ ''/oauth/authorize?'' @ URLSearchParams_toString queryParams,
                    result_state = state' \<rparr>))"

text \<open>
  \<open>exchangeCodeForToken\<close> and \<open>refreshToken\<close>: one POST to \<open>/oauth/token\<close>, then
  \<open>if (response.access_token)\<close> installs the token in the client.
\<close>

definition install_token :: "OAuthTokenResponse \<Rightarrow> runtime \<Rightarrow> runtime" where
  "install_token response' rt =
     (if access_token response' \<noteq> []
      then rt\<lparr>client := client_setAccessToken (Some (access_token response')) (client rt)\<rparr>
      else rt)"

definition exchangeCodeForToken ::
  "(AxiosRequestConfig \<Rightarrow> AxiosError + OAuthTokenResponse) \<Rightarrow> OAuthTokenRequest \<Rightarrow> runtime \<Rightarrow>
   (exception + OAuthTokenResponse) \<times> runtime" where
  "exchangeCodeForToken adapter d rt =
     (case client_post adapter ''/oauth/token''
             (TokenData d (or_else (grantType d) ''authorization_code'')) rt of
        (Inl e, rt') \<Rightarrow> (Inl e, rt')
      | (Inr response', rt') \<Rightarrow> (Inr response', install_token response' rt'))"

definition refreshToken ::
  "(AxiosRequestConfig \<Rightarrow> AxiosError + OAuthTokenResponse) \<Rightarrow> string \<Rightarrow> string \<Rightarrow> runtime \<Rightarrow>
   (exception + OAuthTokenResponse) \<times> runtime" where
  "refreshToken adapter refreshToken' clientId' rt =
     (case client_post adapter ''/oauth/token''
             (RefreshData ''refresh_token'' refreshToken' clientId') rt of
        (Inl e, rt') \<Rightarrow> (Inl e, rt')
      | (Inr response', rt') \<Rightarrow> (Inr response', install_token response' rt'))"

definition state_not_validated_warning :: string where
  "state_not_validated_warning =
     [CHR 0xE2, CHR 0x9A, CHR 0xA0, CHR 0xEF, CHR 0xB8, CHR 0x8F] @
     '' Security Warning: OAuth state parameter received but not validated. '' @
     ''This may leave your application vulnerable to CSRF attacks. '' @
     ''Always validate the state parameter by passing originalState to handleCallback.''"

text \<open>
  \<open>handleCallback(url, clientId, clientSecret, redirectUri, originalState?)\<close>, in the
  version that validates the state. The checks run in the order of the source: the
  \<open>error\<close> parameter, the \<open>code\<close> parameter, then the state; \<open>if (error)\<close>,
  \<open>if (!code)\<close>, \<open>if (originalState)\<close> and \<open>else if (receivedState)\<close> are tests
  of truthiness.
\<close>

definition handleCallback ::
  "(string \<Rightarrow> string + URL) \<Rightarrow> (AxiosRequestConfig \<Rightarrow> AxiosError + OAuthTokenResponse) \<Rightarrow>
   string \<Rightarrow> string \<Rightarrow> string option \<Rightarrow> string option \<Rightarrow> string option \<Rightarrow> runtime \<Rightarrow>
   (exception + OAuthTokenResponse) \<times> runtime" where
  "handleCallback new_URL adapter callback_url clientId' clientSecret' redirectUri' originalState rt =
     (case new_URL callback_url of
        Inl parse_message \<Rightarrow> (Inl (TypeError parse_message), rt)
      | Inr urlObj \<Rightarrow>
          (let code' = searchParams_get urlObj ''code'';
               error = searchParams_get urlObj ''error'';
               receivedState = searchParams_get urlObj ''state''
           in if truthy error then (Inl (Error (''OAuth error: '' @ the_string error)), rt)
              else if \<not> truthy code'
              then (Inl (Error ''Authorization code not found in callback URL''), rt)
              else
                (case (if truthy originalState
                       then (validateOAuthState receivedState (the_string originalState), rt)
                       else if truthy receivedState
                       then (Inr (), rt\<lparr>console := console rt @ [state_not_validated_warning]\<rparr>)
                       else (Inr (), rt)) of
                   (Inl e, rt1) \<Rightarrow> (Inl e, rt1)
                 | (Inr _, rt1) \<Rightarrow>
                     exchangeCodeForToken adapter
                       \<lparr> code = the_string code',
                         req_clientId = clientId',
                         req_clientSecret = clientSecret',
                         req_redirectUri = or_else redirectUri' (origin urlObj @ pathname urlObj),
                         grantType = None \<rparr>
                       rt1)))"

text \<open>
  \<open>handleCallback(url, clientId, clientSecret?, redirectUri?)\<close> of \<open>src/oauth.ts\<close>,
  which reads no state.
\<close>

definition handleCallback_oauth_ts ::
  "(string \<Rightarrow> string + URL) \<Rightarrow> (AxiosRequestConfig \<Rightarrow> AxiosError + OAuthTokenResponse) \<Rightarrow>
   string \<Rightarrow> string \<Rightarrow> string option \<Rightarrow> string option \<Rightarrow> runtime \<Rightarrow>
   (exception + OAuthTokenResponse) \<times> runtime" where
  "handleCallback_oauth_ts new_URL adapter callback_url clientId' clientSecret' redirectUri' rt =
     (case new_URL callback_url of
        Inl parse_message \<Rightarrow> (Inl (TypeError parse_message), rt)
      | Inr urlObj \<Rightarrow>
          (let code' = searchParams_get urlObj ''code'';
               error = searchParams_get urlObj ''error''
           in if truthy error then (Inl (Error (''OAuth error: '' @ the_string error)), rt)
              else if \<not> truthy code'
              then (Inl (Error ''Authorization code not found in callback URL''), rt)
              else
                exchangeCodeForToken adapter
                  \<lparr> code = the_string code',
                    req_clientId = clientId',
                    req_clientSecret = clientSecret',
                    req_redirectUri = or_else redirectUri' (origin urlObj @ pathname urlObj),
                    grantType = None \<rparr>
                  rt))"

section \<open>The facade (\<open>src/index.ts\<close>)\<close>

text \<open>\<open>config.baseUrl.replace(/\/$/, '')\<close> removes one trailing slash.\<close>

definition remove_trailing_slash :: "string \<Rightarrow> string" where
  "remove_trailing_slash s = (if s \<noteq> [] \<and> last s = CHR ''/'' then butlast s else s)"

definition Zuth_new :: "ZuthConfig \<Rightarrow> exception + runtime" where
  "Zuth_new cfg =
     (if baseUrl cfg = [] then Inl (Error ''baseUrl is required in Zuth configuration'')
      else
        let normalizedConfig = cfg\<lparr>baseUrl := remove_trailing_slash (baseUrl cfg)\<rparr>
        in Inr \<lparr> client = ZuthClient_new normalizedConfig, dispatched = [], console = [] \<rparr>)"

definition Zuth_setAccessToken :: "string \<Rightarrow> runtime \<Rightarrow> runtime" where
  "Zuth_setAccessToken token rt = rt\<lparr>client := client_setAccessToken (Some token) (client rt)\<rparr>"

definition Zuth_isAuthenticated :: "runtime \<Rightarrow> bool" where
  "Zuth_isAuthenticated rt = (client_getAccessToken (client rt) \<noteq> None)"

definition Zuth_clearAuth :: "runtime \<Rightarrow> runtime" where
  "Zuth_clearAuth rt = rt\<lparr>client := client_clearAccessToken (client rt)\<rparr>"

section \<open>Sample inputs\<close>

text \<open>
  A few URLs with the fields the platform's parser gives them, written out by hand; any
  other string is taken not to parse. Two parsers over that table: \<open>sample_new_URL\<close>
  throws with the fixed message of V8 and Node, \<open>quoting_new_URL\<close> with a message
  that quotes the input, as Firefox's does.
\<close>

definition app_URL :: "string \<Rightarrow> string \<Rightarrow> (string \<times> string) list \<Rightarrow> URL" where
  "app_URL h path query =
     \<lparr> protocol = ''https:'', hostname = h, host = h, origin = ''https://'' @ h,
       pathname = path, searchParams = query \<rparr>"

definition sample_URLs :: "(string \<times> URL) list" where
  "sample_URLs =
     [ (''https://app.test/cb?code=abc&state=S'',
          app_URL ''app.test'' ''/cb'' [(''code'', ''abc''), (''state'', ''S'')]),
       (''https://app.test/cb?code=abc&state=WRONG'',
          app_URL ''app.test'' ''/cb'' [(''code'', ''abc''), (''state'', ''WRONG'')]),
       (''https://app.test/cb?error=access_denied&state=WRONG'',
          app_URL ''app.test'' ''/cb'' [(''error'', ''access_denied''), (''state'', ''WRONG'')]),
       (''https://app.test/cb?error=&code=abc'',
          app_URL ''app.test'' ''/cb'' [(''error'', []), (''code'', ''abc'')]),
       (''https://app.test/cb?state=S'',
          app_URL ''app.test'' ''/cb'' [(''state'', ''S'')]),
       (''https://app.test/cb'', app_URL ''app.test'' ''/cb'' []),
       (''https://evil.test/cb'', app_URL ''evil.test'' ''/cb'' []),
       (''http://localhost:3000/api'',
          \<lparr> protocol = ''http:'', hostname = ''localhost'', host = ''localhost:3000'',
            origin = ''http://localhost:3000'', pathname = ''/api'', searchParams = [] \<rparr>),
       (''http://api.test/'',
          \<lparr> protocol = ''http:'', hostname = ''api.test'', host = ''api.test'',
            origin = ''http://api.test'', pathname = ''/'', searchParams = [] \<rparr>) ]"

definition sample_new_URL :: "string \<Rightarrow> string + URL" where
  "sample_new_URL s =
     (case map_of sample_URLs s of None \<Rightarrow> Inl ''Invalid URL'' | Some u \<Rightarrow> Inr u)"

definition quoting_new_URL :: "string \<Rightarrow> string + URL" where
  "quoting_new_URL s =
     (case map_of sample_URLs s of
        None \<Rightarrow> Inl (''URL constructor: '' @ s @ '' is not a valid URL.'')
      | Some u \<Rightarrow> Inr u)"

definition sample_config :: ZuthConfig where
  "sample_config =
     \<lparr> baseUrl = ''https://auth.test/'', cfg_clientId = None, cfg_clientSecret = None,
       cfg_redirectUri = None, timeout = None, headers = None \<rparr>"

definition sample_runtime :: runtime where
  "sample_runtime =
     \<lparr> client = ZuthClient_new (sample_config\<lparr>baseUrl := ''https://auth.test''\<rparr>),
       dispatched = [], console = [] \<rparr>"

definition sample_token :: OAuthTokenResponse where
  "sample_token =
     \<lparr> access_token = ''tok123'', token_type = ''Bearer'', expires_in = 3600,
       refresh_token = None, token_scope = None, id_token = None \<rparr>"

definition token_server :: "AxiosRequestConfig \<Rightarrow> AxiosError + OAuthTokenResponse" where
  "token_server cfg = Inr sample_token"

definition login_server :: "AxiosRequestConfig \<Rightarrow> AxiosError + LoginResponse" where
  "login_server cfg = Inr \<lparr> login_access_token = ''tok456'', user = JNull, device = None \<rparr>"

definition sample_rnd :: "nat \<Rightarrow> 8 word" where
  "sample_rnd i = of_nat (37 * i + 11)"

definition sample_request :: AxiosRequestConfig where
  "sample_request =
     \<lparr> req_method = GET, req_baseURL = ''https://auth.test'', req_url = ''/auth/me'',
       req_timeout = 30000, req_headers = [(''Content-Type'', ''application/json'')],
       data = NoData \<rparr>"

definition sample_login :: LoginRequest where
  "sample_login = \<lparr> email = ''User@Example.com'', password = ''correct horse'' \<rparr>"

definition sample_exchange :: OAuthTokenRequest where
  "sample_exchange =
     \<lparr> code = ''abc'', req_clientId = ''c1'', req_clientSecret = None,
       req_redirectUri = ''https://app.test/cb'', grantType = None \<rparr>"

definition sample_params :: OAuthAuthorizeParams where
  "sample_params =
     \<lparr> clientId = ''c1'', redirectUri = ''https://app.test/cb'', responseType = None,
       scope = None, state = None \<rparr>"

text \<open>
  Four ways a request fails: the server answers 401 with a body that has only the
  \<open>error\<close> field; no response arrives; the request is never sent; the server
  answers 500 with the body \<open>null\<close>.
\<close>

definition unauthorized_error :: AxiosError where
  "unauthorized_error =
     \<lparr> response = Some \<lparr> status = 401,
                          response_data = Some \<lparr> zerr_error = Some ''Unauthorized'',
                                                 zerr_message = None, zerr_statusCode = None,
                                                 details = None \<rparr> \<rparr>,
       request = True, axios_message = ''Request failed with status code 401'' \<rparr>"

definition network_error :: AxiosError where
  "network_error =
     \<lparr> response = None, request = True, axios_message = ''timeout of 30000ms exceeded'' \<rparr>"

definition setup_error :: AxiosError where
  "setup_error = \<lparr> response = None, request = False, axios_message = ''Invalid header'' \<rparr>"

definition null_body_error :: AxiosError where
  "null_body_error =
     \<lparr> response = Some \<lparr> status = 500, response_data = None \<rparr>,
       request = True, axios_message = ''Request failed with status code 500'' \<rparr>"

definition failing_server :: "AxiosError \<Rightarrow> AxiosRequestConfig \<Rightarrow> AxiosError + json" where
  "failing_server err cfg = Inl err"

section \<open>Shared facts\<close>

lemma truthy_iff: "truthy x = (\<exists>s. x = Some s \<and> s \<noteq> [])"
  by (cases x) simp_all

lemma not_allowed_rethrown:
  "str_includes (redirect_not_allowed_message u a) ''Redirect URI''"
  by (simp add: redirect_not_allowed_message_def)

lemma insecure_rethrown: "str_includes insecure_url_message ''Insecure URL''"
  by (simp add: insecure_url_message_def)

lemma validateRedirectUri_unparsed:
  "new_URL uri = Inl msg \<Longrightarrow>
   validateRedirectUri new_URL uri allowed =
     (if str_includes msg ''Redirect URI'' then Inl (TypeError msg)
      else Inl (Error (''Invalid redirect URI: '' @ uri)))"
  by (simp add: validateRedirectUri_def)

lemma validateRedirectUri_parsed:
  "new_URL uri = Inr u \<Longrightarrow>
   validateRedirectUri new_URL uri allowed =
     (if protocol u @ ''//'' @ host u \<in> set allowed then Inr ()
      else Inl (Error (redirect_not_allowed_message uri allowed)))"
  by (simp add: validateRedirectUri_def Let_def not_allowed_rethrown)

lemma validateSecureUrl_unparsed:
  "new_URL input = Inl msg \<Longrightarrow>
   validateSecureUrl new_URL input allow =
     (if str_includes msg ''Insecure URL'' then Inl (TypeError msg)
      else Inl (Error (''Invalid URL: '' @ input)))"
  by (simp add: validateSecureUrl_def)

lemma validateSecureUrl_parsed:
  "new_URL input = Inr u \<Longrightarrow>
   validateSecureUrl new_URL input allow =
     (if allow \<noteq> Some False \<and> (hostname u = ''localhost'' \<or> hostname u = ''127.0.0.1'')
      then Inr ()
      else if protocol u \<noteq> ''https:'' then Inl (Error insecure_url_message)
      else Inr ())"
  by (cases allow) (simp_all add: validateSecureUrl_def insecure_rethrown)

lemma sample_new_URL_parsed:
  "map_of sample_URLs s = Some u \<Longrightarrow> sample_new_URL s = Inr u"
  "map_of sample_URLs s = Some u \<Longrightarrow> quoting_new_URL s = Inr u"
  by (simp_all add: sample_new_URL_def quoting_new_URL_def)

lemma hex_digit_mem: "d < 16 \<Longrightarrow> hex_digit d \<in> set ''0123456789abcdef''"
  unfolding hex_digit_def by (rule nth_mem) simp

lemma toString16_small: "n < 16 \<Longrightarrow> toString16 n = [hex_digit n]"
  by (simp add: toString16.simps)

lemma toString16_byte:
  "16 \<le> n \<Longrightarrow> n < 256 \<Longrightarrow> toString16 n = [hex_digit (n div 16), hex_digit (n mod 16)]"
  by (subst toString16.simps) (simp add: toString16_small less_mult_imp_div_less)

lemma byte_hex:
  assumes "n < 256"
  shows "padStart (toString16 n) 2 ''0'' = [hex_digit (n div 16), hex_digit (n mod 16)]"
proof (cases "n < 16")
  case True
  then show ?thesis
    by (simp add: toString16_small padStart_def numeral_2_eq_2 hex_digit_def)
next
  case False
  with assms show ?thesis
    by (simp add: toString16_byte padStart_def)
qed

lemma unat_byte_less: "unat (b :: 8 word) < 256"
  using unsigned_less [of b, where ?'a = nat] by simp

lemma generateOAuthState_eq:
  "generateOAuthState rnd =
     concat (map (\<lambda>i. [hex_digit (unat (rnd i) div 16), hex_digit (unat (rnd i) mod 16)])
               [0..<32])"
  by (simp add: generateOAuthState_def getRandomValues_def Uint8Array_def byte_hex
      unat_byte_less comp_def)

lemma length_concat_pairs: "length (concat (map (\<lambda>i. [f i, g i]) xs)) = 2 * length xs"
  by (induction xs) simp_all

lemma set_concat_pairs:
  "set (concat (map (\<lambda>i. [f i, g i]) xs)) = f ` set xs \<union> g ` set xs"
  by (induction xs) auto

lemma axios_request_client:
  "client (snd (axios_request adapter m path body rt)) = client rt"
  by (simp add: axios_request_def Let_def split: sum.splits)

lemma axios_request_dispatched:
  "dispatched (snd (axios_request adapter m path body rt)) =
     dispatched rt @
       [request_interceptor (client rt)
          \<lparr> req_method = m, req_baseURL = baseURL (axiosInstance (client rt)), req_url = path,
            req_timeout = default_timeout (axiosInstance (client rt)),
            req_headers = default_headers (axiosInstance (client rt)), data = body \<rparr>]"
  by (simp add: axios_request_def Let_def split: sum.splits)

section \<open>The state token\<close>

text \<open>
  Claim C9. Every value \<open>generateOAuthState\<close> returns is a fixed-length hexadecimal
  string: whatever 32 bytes the random source writes, the result has exactly 64
  characters, each one of \<open>0123456789abcdef\<close>, and it is the bytes in order, each as
  two digits: the digit of its high four bits, then the digit of its low four bits
  (so a byte below 16 gets a leading \<open>0\<close>).
\<close>

theorem generateOAuthState_64_hex:
  "length (generateOAuthState rnd) = 64 \<and>
   set (generateOAuthState rnd) \<subseteq> set ''0123456789abcdef'' \<and>
   generateOAuthState rnd =
     concat (map (\<lambda>i. [''0123456789abcdef'' ! (unat (rnd i) div 16),
                       ''0123456789abcdef'' ! (unat (rnd i) mod 16)])
               [0..<32])"
proof (intro conjI)
  show "length (generateOAuthState rnd) = 64"
    by (simp only: generateOAuthState_eq length_concat_pairs) simp
  have d: "unat b div 16 < 16" "unat b mod 16 < 16" for b :: "8 word"
    using unat_byte_less [of b] by (simp_all add: less_mult_imp_div_less)
  show "set (generateOAuthState rnd) \<subseteq> set ''0123456789abcdef''"
    unfolding generateOAuthState_eq set_concat_pairs
    by (intro Un_least image_subsetI hex_digit_mem d)
  show "generateOAuthState rnd =
     concat (map (\<lambda>i. [''0123456789abcdef'' ! (unat (rnd i) div 16),
                       ''0123456789abcdef'' ! (unat (rnd i) mod 16)])
               [0..<32])"
    unfolding generateOAuthState_eq hex_digit_def by (rule refl)
qed

text \<open>
  The bytes \<open>11, 48, 85, ...\<close> (byte \<open>i\<close> is \<open>37 i + 11\<close> modulo 256) are rendered
  as \<open>0b\<close>, \<open>30\<close>, \<open>55\<close> and so on.
\<close>

theorem generateOAuthState_64_hex_witness:
  "generateOAuthState sample_rnd =
     ''0b30557a9fc4e90e33587da2c7ec11365b80a5caef14395e83a8cdf2173c6186''"
proof -
  have "generateOAuthState sample_rnd =
     concat (map (\<lambda>i. [''0123456789abcdef'' ! (unat (sample_rnd i) div 16),
                       ''0123456789abcdef'' ! (unat (sample_rnd i) mod 16)])
               [0..<32])"
    using generateOAuthState_64_hex [of sample_rnd] by blast
  also have "\<dots> = ''0b30557a9fc4e90e33587da2c7ec11365b80a5caef14395e83a8cdf2173c6186''"
    by code_simp
  finally show ?thesis .
qed

text \<open>
  Claim C6, as the code has it. \<open>validateOAuthState\<close> fails with the
  missing-state CSRF error when the received state is absent or the empty string, fails
  with the mismatch CSRF error when the received state is a non-empty string that is not
  character for character the original, and succeeds exactly when the received state is
  the original and is not empty. Nothing is normalised: a state that differs in case or
  by a leading space is a mismatch.
\<close>

theorem validateOAuthState_exact:
  "(received = None \<or> received = Some [] \<longrightarrow>
      validateOAuthState received original =
        Inl (Error ''OAuth state parameter is missing. This may indicate a CSRF attack.'')) \<and>
   (received = Some s \<and> s \<noteq> [] \<and> s \<noteq> original \<longrightarrow>
      validateOAuthState received original =
        Inl (Error ''OAuth state parameter mismatch. This may indicate a CSRF attack.'')) \<and>
   ((validateOAuthState received original = Inr ()) =
      (received = Some original \<and> original \<noteq> []))"
  by (cases received)
    (auto simp: validateOAuthState_def state_missing_message_def state_mismatch_message_def)

theorem validateOAuthState_exact_witness:
  "validateOAuthState None ''S'' =
     Inl (Error ''OAuth state parameter is missing. This may indicate a CSRF attack.'') \<and>
   validateOAuthState (Some []) ''S'' =
     Inl (Error ''OAuth state parameter is missing. This may indicate a CSRF attack.'') \<and>
   validateOAuthState (Some ''s'') ''S'' =
     Inl (Error ''OAuth state parameter mismatch. This may indicate a CSRF attack.'') \<and>
   validateOAuthState (Some '' S'') ''S'' =
     Inl (Error ''OAuth state parameter mismatch. This may indicate a CSRF attack.'') \<and>
   validateOAuthState (Some ''S'') ''S'' = Inr ()"
  using validateOAuthState_exact [of None "''S''"]
    validateOAuthState_exact [of "Some []" "''S''"]
    validateOAuthState_exact [of "Some ''s''" "''S''" "''s''"]
    validateOAuthState_exact [of "Some '' S''" "''S''" "'' S''"]
    validateOAuthState_exact [of "Some ''S''" "''S''" "''S''"]
  by simp

text \<open>
  The claim as the specification words it lets the call succeed whenever the received
  state equals the original. With both the empty string the call fails.
\<close>

theorem validateOAuthState_empty_counterexample:
  "validateOAuthState (Some []) [] =
     Inl (Error ''OAuth state parameter is missing. This may indicate a CSRF attack.'')"
  by (simp add: validateOAuthState_def state_missing_message_def)

section \<open>URL validation\<close>

text \<open>
  Claim C7 has a malformed redirect URI fail with the error of \<open>validateRedirectUri\<close>
  itself, never with the parser's. The \<open>catch\<close> handler tells the two apart by looking
  for \<open>Redirect URI\<close> in the message. On an engine whose parser quotes the input in
  its message, the malformed URI \<open>Redirect URI\<close> makes the parser's \<open>TypeError\<close>
  pass for the function's own error, and it reaches the caller as it is. On an engine
  with a fixed message the same input is wrapped.
\<close>

theorem validateRedirectUri_parse_error_leak:
  "validateRedirectUri quoting_new_URL ''Redirect URI'' [''https://app.test''] =
     Inl (TypeError ''URL constructor: Redirect URI is not a valid URL.'') \<and>
   validateRedirectUri sample_new_URL ''Redirect URI'' [''https://app.test''] =
     Inl (Error ''Invalid redirect URI: Redirect URI'')"
  by code_simp

text \<open>
  What holds of \<open>validateRedirectUri\<close> on every engine: it succeeds exactly when the
  URI parses and its origin (protocol, \<open>//\<close>, host with port) is a member of
  \<open>allowedOrigins\<close>; a parsed URI whose origin is not a member fails with the
  \<open>Error\<close> of the allow list; a URI that does not parse fails with the \<open>Error\<close>
  \<open>Invalid redirect URI\<close> when the parser's message does not contain
  \<open>Redirect URI\<close>, and with the parser's own \<open>TypeError\<close> when it does.
\<close>

theorem validateRedirectUri_allow_list:
  "((validateRedirectUri new_URL uri allowed = Inr ()) =
      (\<exists>u. new_URL uri = Inr u \<and> protocol u @ ''//'' @ host u \<in> set allowed)) \<and>
   (new_URL uri = Inr u \<and> protocol u @ ''//'' @ host u \<notin> set allowed \<longrightarrow>
      validateRedirectUri new_URL uri allowed =
        Inl (Error (''Redirect URI '' @ uri @ '' is not in the allowed origins list. '' @
                    ''Allowed origins: '' @ join allowed '', ''))) \<and>
   (new_URL uri = Inl msg \<and> \<not> str_includes msg ''Redirect URI'' \<longrightarrow>
      validateRedirectUri new_URL uri allowed = Inl (Error (''Invalid redirect URI: '' @ uri))) \<and>
   (new_URL uri = Inl msg \<and> str_includes msg ''Redirect URI'' \<longrightarrow>
      validateRedirectUri new_URL uri allowed = Inl (TypeError msg))"
  by (cases "new_URL uri")
    (simp_all add: validateRedirectUri_unparsed validateRedirectUri_parsed
      redirect_not_allowed_message_def)

theorem validateRedirectUri_allow_list_witness:
  "validateRedirectUri sample_new_URL ''https://app.test/cb'' [''https://app.test''] = Inr () \<and>
   validateRedirectUri sample_new_URL ''https://evil.test/cb''
     [''https://app.test'', ''http://localhost:3000''] =
     Inl (Error (''Redirect URI https://evil.test/cb is not in the allowed origins list. '' @
                 ''Allowed origins: https://app.test, http://localhost:3000'')) \<and>
   validateRedirectUri sample_new_URL ''nonsense'' [''https://app.test''] =
     Inl (Error ''Invalid redirect URI: nonsense'') \<and>
   validateRedirectUri quoting_new_URL ''a Redirect URI'' [''https://app.test''] =
     Inl (TypeError ''URL constructor: a Redirect URI is not a valid URL.'')"
proof -
  have ok: "sample_new_URL ''https://app.test/cb'' = Inr (app_URL ''app.test'' ''/cb'' [])"
    and evil: "sample_new_URL ''https://evil.test/cb'' = Inr (app_URL ''evil.test'' ''/cb'' [])"
    by (rule sample_new_URL_parsed, simp add: sample_URLs_def)+
  have bad: "sample_new_URL ''nonsense'' = Inl ''Invalid URL''"
    and quoted: "quoting_new_URL ''a Redirect URI'' =
      Inl ''URL constructor: a Redirect URI is not a valid URL.''"
    by (simp_all add: sample_new_URL_def quoting_new_URL_def sample_URLs_def)
  have marker: "\<not> str_includes ''Invalid URL'' ''Redirect URI''"
    "str_includes ''URL constructor: a Redirect URI is not a valid URL.'' ''Redirect URI''"
    by simp_all
  from ok evil bad quoted marker
    validateRedirectUri_allow_list [of sample_new_URL "''https://app.test/cb''"
      "[''https://app.test'']" "app_URL ''app.test'' ''/cb'' []" "[]"]
    validateRedirectUri_allow_list [of sample_new_URL "''https://evil.test/cb''"
      "[''https://app.test'', ''http://localhost:3000'']" "app_URL ''evil.test'' ''/cb'' []" "[]"]
    validateRedirectUri_allow_list [of sample_new_URL "''nonsense''" "[''https://app.test'']"
      "app_URL [] [] []" "''Invalid URL''"]
    validateRedirectUri_allow_list [of quoting_new_URL "''a Redirect URI''"
      "[''https://app.test'']" "app_URL [] [] []"
      "''URL constructor: a Redirect URI is not a valid URL.''"]
  show ?thesis
    by (simp add: app_URL_def)
qed

text \<open>
  Claim C8 has a malformed URL fail with the error of \<open>validateSecureUrl\<close> itself.
  Its \<open>catch\<close> handler looks for \<open>Insecure URL\<close> in the message in the same way:
  on an engine whose parser quotes the input, the malformed URL \<open>Insecure URL\<close>
  reaches the caller as the parser's \<open>TypeError\<close>. On an engine with a fixed message
  the same input is wrapped.
\<close>

theorem validateSecureUrl_parse_error_leak:
  "validateSecureUrl quoting_new_URL ''Insecure URL'' (Some False) =
     Inl (TypeError ''URL constructor: Insecure URL is not a valid URL.'') \<and>
   validateSecureUrl sample_new_URL ''Insecure URL'' (Some False) =
     Inl (Error ''Invalid URL: Insecure URL'')"
  by code_simp

text \<open>
  What holds of \<open>validateSecureUrl\<close> on every engine: it succeeds exactly when the URL
  parses and either its protocol is \<open>https:\<close> or \<open>allowLocalhost\<close> is on (given or
  by default) and the host name is \<open>localhost\<close> or \<open>127.0.0.1\<close>; any other parsed
  URL fails with the insecure-URL \<open>Error\<close>; a string that does not parse fails with
  the \<open>Error\<close> \<open>Invalid URL\<close> when the parser's message does not contain
  \<open>Insecure URL\<close>, and with the parser's own \<open>TypeError\<close> when it does.
\<close>

theorem validateSecureUrl_https_or_loopback:
  "((validateSecureUrl new_URL input allow = Inr ()) =
      (\<exists>u. new_URL input = Inr u \<and>
           (protocol u = ''https:'' \<or>
            allow \<noteq> Some False \<and> (hostname u = ''localhost'' \<or> hostname u = ''127.0.0.1'')))) \<and>
   (new_URL input = Inr u \<and> protocol u \<noteq> ''https:'' \<and>
    \<not> (allow \<noteq> Some False \<and> (hostname u = ''localhost'' \<or> hostname u = ''127.0.0.1'')) \<longrightarrow>
      validateSecureUrl new_URL input allow =
        Inl (Error (''Insecure URL detected. HTTPS is required in production. '' @
                    ''Use https:// for your baseUrl in production environments.''))) \<and>
   (new_URL input = Inl msg \<and> \<not> str_includes msg ''Insecure URL'' \<longrightarrow>
      validateSecureUrl new_URL input allow = Inl (Error (''Invalid URL: '' @ input))) \<and>
   (new_URL input = Inl msg \<and> str_includes msg ''Insecure URL'' \<longrightarrow>
      validateSecureUrl new_URL input allow = Inl (TypeError msg))"
  by (cases "new_URL input")
    (auto simp add: validateSecureUrl_unparsed validateSecureUrl_parsed insecure_url_message_def)

theorem validateSecureUrl_https_or_loopback_witness:
  "validateSecureUrl sample_new_URL ''https://app.test/cb'' (Some False) = Inr () \<and>
   validateSecureUrl sample_new_URL ''http://localhost:3000/api'' None = Inr () \<and>
   validateSecureUrl sample_new_URL ''http://localhost:3000/api'' (Some False) =
     Inl (Error (''Insecure URL detected. HTTPS is required in production. '' @
                 ''Use https:// for your baseUrl in production environments.'')) \<and>
   validateSecureUrl sample_new_URL ''http://api.test/'' (Some True) =
     Inl (Error (''Insecure URL detected. HTTPS is required in production. '' @
                 ''Use https:// for your baseUrl in production environments.'')) \<and>
   validateSecureUrl sample_new_URL ''nonsense'' None = Inl (Error ''Invalid URL: nonsense'') \<and>
   validateSecureUrl quoting_new_URL ''an Insecure URL'' None =
     Inl (TypeError ''URL constructor: an Insecure URL is not a valid URL.'')"
proof -
  define local_url where "local_url =
    \<lparr> protocol = ''http:'', hostname = ''localhost'', host = ''localhost:3000'',
      origin = ''http://localhost:3000'', pathname = ''/api'', searchParams = [] \<rparr>"
  define api_url where "api_url =
    \<lparr> protocol = ''http:'', hostname = ''api.test'', host = ''api.test'',
      origin = ''http://api.test'', pathname = ''/'', searchParams = [] \<rparr>"
  have p: "sample_new_URL ''https://app.test/cb'' = Inr (app_URL ''app.test'' ''/cb'' [])"
    "sample_new_URL ''http://localhost:3000/api'' = Inr local_url"
    "sample_new_URL ''http://api.test/'' = Inr api_url"
    by (rule sample_new_URL_parsed, simp add: sample_URLs_def local_url_def api_url_def)+
  have q: "sample_new_URL ''nonsense'' = Inl ''Invalid URL''"
    "quoting_new_URL ''an Insecure URL'' =
      Inl ''URL constructor: an Insecure URL is not a valid URL.''"
    by (simp_all add: sample_new_URL_def quoting_new_URL_def sample_URLs_def)
  have marker: "\<not> str_includes ''Invalid URL'' ''Insecure URL''"
    "str_includes ''URL constructor: an Insecure URL is not a valid URL.'' ''Insecure URL''"
    by simp_all
  from p q marker
    validateSecureUrl_https_or_loopback [of sample_new_URL "''https://app.test/cb''"
      "Some False" "app_URL ''app.test'' ''/cb'' []" "[]"]
    validateSecureUrl_https_or_loopback [of sample_new_URL "''http://localhost:3000/api''"
      None local_url "[]"]
    validateSecureUrl_https_or_loopback [of sample_new_URL "''http://localhost:3000/api''"
      "Some False" local_url "[]"]
    validateSecureUrl_https_or_loopback [of sample_new_URL "''http://api.test/''"
      "Some True" api_url "[]"]
    validateSecureUrl_https_or_loopback [of sample_new_URL "''nonsense''" None local_url
      "''Invalid URL''"]
    validateSecureUrl_https_or_loopback [of quoting_new_URL "''an Insecure URL''" None local_url
      "''URL constructor: an Insecure URL is not a valid URL.''"]
  show ?thesis
    by (simp add: app_URL_def local_url_def api_url_def)
qed

section \<open>An empty token\<close>

text \<open>
  Claim C10. After \<open>setAccessToken("")\<close> the facade reports itself authenticated, yet
  the request interceptor leaves every request as it is: a request sent in that state
  goes out with the instance's default headers only, the client is unchanged by it (so
  the same holds of the next request), and in general the interceptor changes a
  request only when the stored token is a non-empty string.
\<close>

theorem empty_token_authenticated_without_bearer:
  "Zuth_isAuthenticated (Zuth_setAccessToken [] rt) \<and>
   request_interceptor (client (Zuth_setAccessToken [] rt)) cfg = cfg \<and>
   client (snd (axios_request adapter m path body (Zuth_setAccessToken [] rt))) =
     client (Zuth_setAccessToken [] rt) \<and>
   dispatched (snd (axios_request adapter m path body (Zuth_setAccessToken [] rt))) =
     dispatched rt @
       [\<lparr> req_method = m, req_baseURL = baseURL (axiosInstance (client rt)), req_url = path,
          req_timeout = default_timeout (axiosInstance (client rt)),
          req_headers = default_headers (axiosInstance (client rt)), data = body \<rparr>] \<and>
   (request_interceptor c cfg \<noteq> cfg \<longrightarrow> truthy (accessToken c))"
  by (simp add: axios_request_dispatched axios_request_client Zuth_isAuthenticated_def
      Zuth_setAccessToken_def client_setAccessToken_def client_getAccessToken_def
      request_interceptor_def split: option.splits)

theorem empty_token_authenticated_without_bearer_witness:
  "Zuth_isAuthenticated (Zuth_setAccessToken [] sample_runtime) \<and>
   map (map_of \<circ> req_headers)
     (dispatched (snd (axios_request token_server GET ''/auth/me'' NoData
        (Zuth_setAccessToken [] sample_runtime)))) = [map_of (req_headers sample_request)] \<and>
   map_of (req_headers sample_request) ''Authorization'' = None \<and>
   request_interceptor (client (Zuth_setAccessToken ''tok'' sample_runtime)) sample_request
     \<noteq> sample_request \<and>
   truthy (accessToken (client (Zuth_setAccessToken ''tok'' sample_runtime)))"
proof -
  have changed:
    "request_interceptor (client (Zuth_setAccessToken ''tok'' sample_runtime)) sample_request
       \<noteq> sample_request"
    by (simp add: request_interceptor_def Zuth_setAccessToken_def client_setAccessToken_def
        sample_request_def)
  have defaults: "default_headers (axiosInstance (client sample_runtime)) =
      req_headers sample_request"
    by (simp add: sample_runtime_def sample_config_def sample_request_def ZuthClient_new_def
        axios_create_def object_spread_def)
  from changed defaults
    empty_token_authenticated_without_bearer [of sample_runtime sample_request token_server GET
      "''/auth/me''" NoData "client (Zuth_setAccessToken ''tok'' sample_runtime)"]
  show ?thesis
    by (simp add: sample_runtime_def sample_request_def)
qed

section \<open>The OAuth callback\<close>

lemma handleCallback_unparsed:
  "new_URL input = Inl msg \<Longrightarrow>
   handleCallback new_URL adapter input cid secret redirect original rt =
     (Inl (TypeError msg), rt)"
  by (simp add: handleCallback_def)

lemma handleCallback_error_param:
  "new_URL input = Inr u \<Longrightarrow> searchParams_get u ''error'' = Some e \<Longrightarrow> e \<noteq> [] \<Longrightarrow>
   handleCallback new_URL adapter input cid secret redirect original rt =
     (Inl (Error (''OAuth error: '' @ e)), rt)"
  by (simp add: handleCallback_def Let_def)

lemma handleCallback_no_code:
  "new_URL input = Inr u \<Longrightarrow> \<not> truthy (searchParams_get u ''error'') \<Longrightarrow>
   \<not> truthy (searchParams_get u ''code'') \<Longrightarrow>
   handleCallback new_URL adapter input cid secret redirect original rt =
     (Inl (Error ''Authorization code not found in callback URL''), rt)"
  by (simp add: handleCallback_def Let_def)

lemma handleCallback_state_checked:
  "new_URL input = Inr u \<Longrightarrow> \<not> truthy (searchParams_get u ''error'') \<Longrightarrow>
   truthy (searchParams_get u ''code'') \<Longrightarrow> original \<noteq> [] \<Longrightarrow>
   searchParams_get u ''state'' \<noteq> Some original \<Longrightarrow>
   handleCallback new_URL adapter input cid secret redirect (Some original) rt =
     (Inl (Error (if truthy (searchParams_get u ''state'') then state_mismatch_message
                  else state_missing_message)), rt)"
  by (simp add: handleCallback_def Let_def validateOAuthState_def)

lemma handleCallback_oauth_ts_error_param:
  "new_URL input = Inr u \<Longrightarrow> searchParams_get u ''error'' = Some e \<Longrightarrow> e \<noteq> [] \<Longrightarrow>
   handleCallback_oauth_ts new_URL adapter input cid secret redirect rt =
     (Inl (Error (''OAuth error: '' @ e)), rt)"
  by (simp add: handleCallback_oauth_ts_def Let_def)

lemma handleCallback_oauth_ts_no_code:
  "new_URL input = Inr u \<Longrightarrow> \<not> truthy (searchParams_get u ''error'') \<Longrightarrow>
   \<not> truthy (searchParams_get u ''code'') \<Longrightarrow>
   handleCallback_oauth_ts new_URL adapter input cid secret redirect rt =
     (Inl (Error ''Authorization code not found in callback URL''), rt)"
  by (simp add: handleCallback_oauth_ts_def Let_def)

text \<open>
  Claim C1, as the code has it. Let the caller pass a non-empty \<open>originalState\<close> and
  let the callback's \<open>state\<close> be absent or different from it. Then \<open>handleCallback\<close>
  fails and leaves the state of the SDK as it was: no request is handed to the adapter
  (the exchange is never executed) and no token is installed. When moreover the URL
  parses, has no non-empty \<open>error\<close> parameter and has a non-empty \<open>code\<close>, the
  failure is the CSRF error of \<open>validateOAuthState\<close>: the mismatch error for a
  non-empty received state, the missing-state error otherwise.
\<close>

theorem handleCallback_csrf:
  assumes "original \<noteq> []"
    and "\<forall>u. new_URL input = Inr u \<longrightarrow> searchParams_get u ''state'' \<noteq> Some original"
  shows "(\<exists>e. handleCallback new_URL adapter input cid secret redirect (Some original) rt =
            (Inl e, rt)) \<and>
     (\<forall>u. new_URL input = Inr u \<and> \<not> truthy (searchParams_get u ''error'') \<and>
          truthy (searchParams_get u ''code'') \<longrightarrow>
        handleCallback new_URL adapter input cid secret redirect (Some original) rt =
          (Inl (Error (if truthy (searchParams_get u ''state'') then state_mismatch_message
                       else state_missing_message)), rt))"
proof (cases "new_URL input")
  case (Inl msg)
  then show ?thesis by (simp add: handleCallback_unparsed)
next
  case (Inr u)
  with assms have ne: "searchParams_get u ''state'' \<noteq> Some original" by simp
  show ?thesis
  proof (cases "truthy (searchParams_get u ''error'')")
    case True
    then obtain e where "searchParams_get u ''error'' = Some e" "e \<noteq> []"
      by (auto simp: truthy_iff)
    with Inr True show ?thesis by (simp add: handleCallback_error_param)
  next
    case noerr: False
    show ?thesis
    proof (cases "truthy (searchParams_get u ''code'')")
      case True
      with Inr noerr ne assms(1) show ?thesis
        by (simp add: handleCallback_state_checked)
    next
      case False
      with Inr noerr show ?thesis by (simp add: handleCallback_no_code)
    qed
  qed
qed

theorem handleCallback_csrf_witness:
  "handleCallback sample_new_URL token_server ''https://app.test/cb?code=abc&state=WRONG''
     ''c1'' None None (Some ''S'') sample_runtime =
   (Inl (Error state_mismatch_message), sample_runtime)"
proof -
  let ?u = "app_URL ''app.test'' ''/cb'' [(''code'', ''abc''), (''state'', ''WRONG'')]"
  have p: "sample_new_URL ''https://app.test/cb?code=abc&state=WRONG'' = Inr ?u"
    by (rule sample_new_URL_parsed) (simp add: sample_URLs_def)
  have q: "searchParams_get ?u ''state'' = Some ''WRONG''"
    "searchParams_get ?u ''code'' = Some ''abc''" "searchParams_get ?u ''error'' = None"
    by (simp_all add: searchParams_get_def app_URL_def)
  have differs: "\<forall>u. sample_new_URL ''https://app.test/cb?code=abc&state=WRONG'' = Inr u \<longrightarrow>
      searchParams_get u ''state'' \<noteq> Some ''S''"
    using p q by simp
  have supplied: "''S'' \<noteq> []"
    by simp
  from handleCallback_csrf [where original = "''S''" and new_URL = sample_new_URL
      and input = "''https://app.test/cb?code=abc&state=WRONG''" and adapter = token_server
      and cid = "''c1''" and secret = None and redirect = None and rt = sample_runtime,
      OF supplied differs] p q
  show ?thesis by simp
qed

text \<open>
  As the specification words it the claim fails twice. A callback with an \<open>error\<close>
  parameter and a wrong state fails with the OAuth error, not with the CSRF error. And
  an \<open>originalState\<close> that is the empty string is no state to the guard
  \<open>if (originalState)\<close>: the wrong state is accepted and the exchange runs.
\<close>

theorem handleCallback_csrf_counterexample:
  "handleCallback sample_new_URL token_server
     ''https://app.test/cb?error=access_denied&state=WRONG'' ''c1'' None None (Some ''S'')
     sample_runtime =
   (Inl (Error ''OAuth error: access_denied''), sample_runtime) \<and>
   fst (handleCallback sample_new_URL token_server ''https://app.test/cb?code=abc&state=WRONG''
     ''c1'' None None (Some []) sample_runtime) = Inr sample_token \<and>
   length (dispatched (snd (handleCallback sample_new_URL token_server
     ''https://app.test/cb?code=abc&state=WRONG'' ''c1'' None None (Some []) sample_runtime))) = 1"
  by code_simp

text \<open>
  Claim C4, as the code has it, for \<open>handleCallback\<close> in both versions. A callback
  URL whose \<open>error\<close> parameter is a non-empty string makes it fail with the
  \<open>Error\<close> that carries that code; a callback URL with neither a non-empty \<open>error\<close>
  nor a non-empty \<open>code\<close> (so one that lacks both) makes it fail with
  \<open>Authorization code not found in callback URL\<close>. Either way the state of the SDK
  is as before: no request was handed to the adapter.
\<close>

theorem handleCallback_rejects_before_exchange:
  "(new_URL input = Inr u \<and> searchParams_get u ''error'' = Some e \<and> e \<noteq> [] \<longrightarrow>
      handleCallback new_URL adapter input cid secret redirect original rt =
        (Inl (Error (''OAuth error: '' @ e)), rt) \<and>
      handleCallback_oauth_ts new_URL adapter input cid secret redirect rt =
        (Inl (Error (''OAuth error: '' @ e)), rt)) \<and>
   (new_URL input = Inr u \<and> \<not> truthy (searchParams_get u ''error'') \<and>
    \<not> truthy (searchParams_get u ''code'') \<longrightarrow>
      handleCallback new_URL adapter input cid secret redirect original rt =
        (Inl (Error ''Authorization code not found in callback URL''), rt) \<and>
      handleCallback_oauth_ts new_URL adapter input cid secret redirect rt =
        (Inl (Error ''Authorization code not found in callback URL''), rt))"
  by (simp add: handleCallback_error_param handleCallback_no_code
      handleCallback_oauth_ts_error_param handleCallback_oauth_ts_no_code)

theorem handleCallback_rejects_before_exchange_witness:
  "handleCallback sample_new_URL token_server
     ''https://app.test/cb?error=access_denied&state=WRONG'' ''c1'' None None None sample_runtime =
     (Inl (Error ''OAuth error: access_denied''), sample_runtime) \<and>
   handleCallback_oauth_ts sample_new_URL token_server
     ''https://app.test/cb?error=access_denied&state=WRONG'' ''c1'' None None sample_runtime =
     (Inl (Error ''OAuth error: access_denied''), sample_runtime) \<and>
   handleCallback sample_new_URL token_server ''https://app.test/cb?state=S'' ''c1'' None None
     (Some ''S'') sample_runtime =
     (Inl (Error ''Authorization code not found in callback URL''), sample_runtime) \<and>
   handleCallback_oauth_ts sample_new_URL token_server ''https://app.test/cb?state=S'' ''c1''
     None None sample_runtime =
     (Inl (Error ''Authorization code not found in callback URL''), sample_runtime)"
proof -
  let ?denied = "app_URL ''app.test'' ''/cb'' [(''error'', ''access_denied''), (''state'', ''WRONG'')]"
  let ?bare = "app_URL ''app.test'' ''/cb'' [(''state'', ''S'')]"
  have p: "sample_new_URL ''https://app.test/cb?error=access_denied&state=WRONG'' = Inr ?denied"
    "sample_new_URL ''https://app.test/cb?state=S'' = Inr ?bare"
    by (rule sample_new_URL_parsed, simp add: sample_URLs_def)+
  have q: "searchParams_get ?denied ''error'' = Some ''access_denied''"
    "searchParams_get ?bare ''error'' = None" "searchParams_get ?bare ''code'' = None"
    by (simp_all add: searchParams_get_def app_URL_def)
  from p q
    handleCallback_rejects_before_exchange [of sample_new_URL
      "''https://app.test/cb?error=access_denied&state=WRONG''" ?denied "''access_denied''"
      token_server "''c1''" None None None sample_runtime]
    handleCallback_rejects_before_exchange [of sample_new_URL "''https://app.test/cb?state=S''"
      ?bare "[]" token_server "''c1''" None None "Some ''S''" sample_runtime]
  show ?thesis by simp
qed

text \<open>
  As the specification words it the claim covers every URL that contains an \<open>error\<close>
  parameter. One whose \<open>error\<close> parameter is empty passes \<open>if (error)\<close>, and with a
  code beside it the exchange runs.
\<close>

theorem handleCallback_empty_error_counterexample:
  "fst (handleCallback sample_new_URL token_server ''https://app.test/cb?error=&code=abc''
     ''c1'' None None None sample_runtime) = Inr sample_token \<and>
   length (dispatched (snd (handleCallback sample_new_URL token_server
     ''https://app.test/cb?error=&code=abc'' ''c1'' None None None sample_runtime))) = 1"
  by code_simp

section \<open>The authorization URL\<close>

lemma urlencoded_names:
  "urlencoded_string ''client_id'' = ''client_id''"
  "urlencoded_string ''redirect_uri'' = ''redirect_uri''"
  "urlencoded_string ''response_type'' = ''response_type''"
  "urlencoded_string ''scope'' = ''scope''"
  "urlencoded_string ''state'' = ''state''"
  by (simp_all add: urlencoded_string_def urlencoded_byte_def urlencoded_keep_def)

lemma query_string:
  "URLSearchParams_toString
     [(''client_id'', a), (''redirect_uri'', b), (''response_type'', c), (''scope'', d),
      (''state'', e)] =
   ''client_id='' @ urlencoded_string a @ ''&redirect_uri='' @ urlencoded_string b @
   ''&response_type='' @ urlencoded_string c @ ''&scope='' @ urlencoded_string d @
   ''&state='' @ urlencoded_string e"
  by (simp add: URLSearchParams_toString_def urlencoded_names)

text \<open>
  Claim C2, as the code has it. With a non-empty \<open>allowedOrigins\<close>,
  \<open>getAuthorizationUrl\<close> validates the redirect URI first and a validation failure is
  its result: no URL is built. With no list, an empty list, or a list the redirect URI
  passes, it returns the state used (\<open>params.state\<close> when that is a non-empty string,
  a generated state otherwise) and the URL \<open>baseUrl/oauth/authorize?\<close> followed by
  \<open>client_id\<close>, \<open>redirect_uri\<close>, \<open>response_type\<close> (default \<open>code\<close>),
  \<open>scope\<close> (default \<open>openid profile email\<close>) and \<open>state\<close>, each value
  form-urlencoded.
\<close>

theorem getAuthorizationUrl_validates_then_builds:
  "(allowedOrigins = Some origins \<and> origins \<noteq> [] \<and>
    validateRedirectUri new_URL (redirectUri params) origins = Inl e \<longrightarrow>
      getAuthorizationUrl new_URL rnd params allowedOrigins c = Inl e) \<and>
   (allowedOrigins = None \<or> allowedOrigins = Some [] \<or>
    (\<exists>origins. allowedOrigins = Some origins \<and>
       validateRedirectUri new_URL (redirectUri params) origins = Inr ()) \<longrightarrow>
      getAuthorizationUrl new_URL rnd params allowedOrigins c =
        Inr \<lparr> url = client_getBaseUrl c @ ''/oauth/authorize?'' @
                 ''client_id='' @ urlencoded_string (clientId params) @
                 ''&redirect_uri='' @ urlencoded_string (redirectUri params) @
                 ''&response_type='' @ urlencoded_string (or_else (responseType params) ''code'') @
                 ''&scope='' @ urlencoded_string (or_else (scope params) ''openid profile email'') @
                 ''&state='' @
                 urlencoded_string (or_else (state params) (generateOAuthState rnd)),
               result_state = or_else (state params) (generateOAuthState rnd) \<rparr>) \<and>
   (\<not> truthy (state params) \<longrightarrow>
      or_else (state params) (generateOAuthState rnd) = generateOAuthState rnd) \<and>
   (truthy (state params) \<longrightarrow>
      Some (or_else (state params) (generateOAuthState rnd)) = state params)"
proof (intro conjI impI)
  assume "allowedOrigins = Some origins \<and> origins \<noteq> [] \<and>
    validateRedirectUri new_URL (redirectUri params) origins = Inl e"
  then show "getAuthorizationUrl new_URL rnd params allowedOrigins c = Inl e"
    by (simp add: getAuthorizationUrl_def)
next
  assume "allowedOrigins = None \<or> allowedOrigins = Some [] \<or>
    (\<exists>origins. allowedOrigins = Some origins \<and>
       validateRedirectUri new_URL (redirectUri params) origins = Inr ())"
  then have "(case allowedOrigins of None \<Rightarrow> Inr ()
       | Some origins \<Rightarrow>
           if length origins > 0 then validateRedirectUri new_URL (redirectUri params) origins
           else Inr ()) = Inr ()"
    by (auto split: option.splits)
  then show "getAuthorizationUrl new_URL rnd params allowedOrigins c =
        Inr \<lparr> url = client_getBaseUrl c @ ''/oauth/authorize?'' @
                 ''client_id='' @ urlencoded_string (clientId params) @
                 ''&redirect_uri='' @ urlencoded_string (redirectUri params) @
                 ''&response_type='' @ urlencoded_string (or_else (responseType params) ''code'') @
                 ''&scope='' @ urlencoded_string (or_else (scope params) ''openid profile email'') @
                 ''&state='' @
                 urlencoded_string (or_else (state params) (generateOAuthState rnd)),
               result_state = or_else (state params) (generateOAuthState rnd) \<rparr>"
    by (simp add: getAuthorizationUrl_def Let_def query_string)
next
  assume "\<not> truthy (state params)"
  then show "or_else (state params) (generateOAuthState rnd) = generateOAuthState rnd"
    by (cases "state params") simp_all
next
  assume "truthy (state params)"
  then show "Some (or_else (state params) (generateOAuthState rnd)) = state params"
    by (cases "state params") simp_all
qed

theorem getAuthorizationUrl_validates_then_builds_witness:
  "getAuthorizationUrl sample_new_URL sample_rnd (sample_params\<lparr>redirectUri := ''https://evil.test/cb''\<rparr>)
     (Some [''https://app.test'']) (client sample_runtime) =
     Inl (Error (redirect_not_allowed_message ''https://evil.test/cb'' [''https://app.test''])) \<and>
   getAuthorizationUrl sample_new_URL sample_rnd sample_params (Some [''https://app.test''])
     (client sample_runtime) =
     Inr \<lparr> url = ''https://auth.test/oauth/authorize?client_id=c1'' @
                ''&redirect_uri=https%3A%2F%2Fapp.test%2Fcb&response_type=code'' @
                ''&scope=openid+profile+email&state='' @ generateOAuthState sample_rnd,
            result_state = generateOAuthState sample_rnd \<rparr> \<and>
   getAuthorizationUrl sample_new_URL sample_rnd (sample_params\<lparr>state := Some ''xyz''\<rparr>) None
     (client sample_runtime) =
     Inr \<lparr> url = ''https://auth.test/oauth/authorize?client_id=c1'' @
                ''&redirect_uri=https%3A%2F%2Fapp.test%2Fcb&response_type=code'' @
                ''&scope=openid+profile+email&state=xyz'',
            result_state = ''xyz'' \<rparr>"
proof -
  have evil: "validateRedirectUri sample_new_URL ''https://evil.test/cb'' [''https://app.test''] =
      Inl (Error (redirect_not_allowed_message ''https://evil.test/cb'' [''https://app.test'']))"
    by (simp add: validateRedirectUri_parsed [of _ _ "app_URL ''evil.test'' ''/cb'' []"]
        sample_new_URL_def sample_URLs_def app_URL_def)
  have ok: "validateRedirectUri sample_new_URL ''https://app.test/cb'' [''https://app.test''] = Inr ()"
    by (simp add: validateRedirectUri_parsed [of _ _ "app_URL ''app.test'' ''/cb'' []"]
        sample_new_URL_def sample_URLs_def app_URL_def)
  have enc: "urlencoded_string ''c1'' = ''c1''"
    "urlencoded_string ''https://app.test/cb'' = ''https%3A%2F%2Fapp.test%2Fcb''"
    "urlencoded_string ''code'' = ''code''"
    "urlencoded_string ''openid profile email'' = ''openid+profile+email''"
    "urlencoded_string ''xyz'' = ''xyz''"
    by code_simp+
  have hex: "urlencoded_string (generateOAuthState sample_rnd) = generateOAuthState sample_rnd"
    by code_simp
  have base: "client_getBaseUrl (client sample_runtime) = ''https://auth.test''"
    by (simp add: client_getBaseUrl_def sample_runtime_def ZuthClient_new_def sample_config_def)
  from evil ok
    getAuthorizationUrl_validates_then_builds [of "Some [''https://app.test'']"
      "[''https://app.test'']" sample_new_URL "sample_params\<lparr>redirectUri := ''https://evil.test/cb''\<rparr>"
      "Error (redirect_not_allowed_message ''https://evil.test/cb'' [''https://app.test''])"
      sample_rnd "client sample_runtime"]
    getAuthorizationUrl_validates_then_builds [of "Some [''https://app.test'']"
      "[''https://app.test'']" sample_new_URL sample_params _ sample_rnd "client sample_runtime"]
    getAuthorizationUrl_validates_then_builds [of None _ sample_new_URL
      "sample_params\<lparr>state := Some ''xyz''\<rparr>" _ sample_rnd "client sample_runtime"]
  show ?thesis
    by (simp add: sample_params_def enc hex base)
qed

text \<open>
  As the specification words it the validation runs for every supplied list. An empty
  list is supplied and not validated against: the redirect URI below is on no list, the
  validation would reject it, and the URL is built all the same.
\<close>

theorem getAuthorizationUrl_empty_list_counterexample:
  "getAuthorizationUrl sample_new_URL sample_rnd
     \<lparr> clientId = ''c1'', redirectUri = ''https://evil.test/cb'', responseType = None,
       scope = None, state = Some ''xyz'' \<rparr> (Some []) (client sample_runtime) =
   Inr \<lparr> url = ''https://auth.test/oauth/authorize?client_id=c1&redirect_uri=https%3A%2F%2Fevil.test%2Fcb&response_type=code&scope=openid+profile+email&state=xyz'',
          result_state = ''xyz'' \<rparr> \<and>
   validateRedirectUri sample_new_URL ''https://evil.test/cb'' [] =
     Inl (Error ''Redirect URI https://evil.test/cb is not in the allowed origins list. Allowed origins: '')"
  by code_simp

section \<open>Error normalisation\<close>

lemma axios_request_rejected:
  "adapter
     (request_interceptor (client rt)
        \<lparr> req_method = m, req_baseURL = baseURL (axiosInstance (client rt)), req_url = path,
          req_timeout = default_timeout (axiosInstance (client rt)),
          req_headers = default_headers (axiosInstance (client rt)), data = body \<rparr>) = Inl err \<Longrightarrow>
   fst (axios_request adapter m path body rt) = Inl (response_rejected err)"
  by (simp add: axios_request_def Let_def)

text \<open>
  Claim C3, as the code has it. Let the HTTP library reject the request, as it goes out,
  with the error \<open>err\<close>. Then what the caller of the client sees is made of that very
  error. When the server answered with a body that is not null, it is a
  \<open>ZuthSDKError\<close> with the body's message, status code and error kind, each replaced
  when missing or falsy: by \<open>An error occurred\<close>, by the HTTP status, by
  \<open>UnknownError\<close>; the details are the body's. When the request was sent and no
  response arrived it is the \<open>ZuthSDKError\<close> with message
  \<open>Network error: Unable to reach the server\<close>, status code 0 and kind
  \<open>NetworkError\<close>. When the request could not be sent it is a \<open>ZuthSDKError\<close>
  with the library's message (or \<open>An unexpected error occurred\<close>), status code 0 and
  kind \<open>UnknownError\<close>.
\<close>

theorem transport_errors_normalized:
  assumes "adapter
     (request_interceptor (client rt)
        \<lparr> req_method = m, req_baseURL = baseURL (axiosInstance (client rt)), req_url = path,
          req_timeout = default_timeout (axiosInstance (client rt)),
          req_headers = default_headers (axiosInstance (client rt)), data = body \<rparr>) = Inl err"
  shows "(response err = Some r \<and> response_data r = Some z \<longrightarrow>
      fst (axios_request adapter m path body rt) =
        Inl (ZuthSDKError
               (case zerr_message z of None \<Rightarrow> ''An error occurred''
                | Some s \<Rightarrow> if s = [] then ''An error occurred'' else s)
               (case zerr_statusCode z of None \<Rightarrow> status r
                | Some n \<Rightarrow> if n = 0 then status r else n)
               (case zerr_error z of None \<Rightarrow> ''UnknownError''
                | Some k \<Rightarrow> if k = [] then ''UnknownError'' else k)
               (details z))) \<and>
   (response err = None \<and> request err \<longrightarrow>
      fst (axios_request adapter m path body rt) =
        Inl (ZuthSDKError ''Network error: Unable to reach the server'' 0 ''NetworkError'' None)) \<and>
   (response err = None \<and> \<not> request err \<longrightarrow>
      fst (axios_request adapter m path body rt) =
        Inl (ZuthSDKError (if axios_message err = [] then ''An unexpected error occurred''
                           else axios_message err) 0 ''UnknownError'' None))"
proof -
  have thrown: "fst (axios_request adapter m path body rt) = Inl (response_rejected err)"
    using assms by (rule axios_request_rejected)
  show ?thesis
    unfolding thrown
    by (cases "zerr_message z"; cases "zerr_error z") (simp_all add: response_rejected_def)
qed

theorem transport_errors_normalized_witness:
  "fst (client_get (failing_server unauthorized_error) ''/auth/me'' sample_runtime) =
     Inl (ZuthSDKError ''An error occurred'' 401 ''Unauthorized'' None) \<and>
   fst (client_get (failing_server network_error) ''/auth/me'' sample_runtime) =
     Inl (ZuthSDKError ''Network error: Unable to reach the server'' 0 ''NetworkError'' None) \<and>
   fst (client_get (failing_server setup_error) ''/auth/me'' sample_runtime) =
     Inl (ZuthSDKError ''Invalid header'' 0 ''UnknownError'' None)"
proof -
  let ?body = "\<lparr> zerr_error = Some ''Unauthorized'', zerr_message = None,
                 zerr_statusCode = None, details = None \<rparr>"
  let ?r = "\<lparr> status = 401, response_data = Some ?body \<rparr>"
  have rejects: "failing_server e cfg = Inl e" for e cfg
    by (simp add: failing_server_def)
  have shape: "response unauthorized_error = Some ?r" "response_data ?r = Some ?body"
    "response network_error = None" "request network_error"
    "response setup_error = None" "\<not> request setup_error"
    "axios_message setup_error = ''Invalid header''"
    by (simp_all add: unauthorized_error_def network_error_def setup_error_def)
  from shape
    transport_errors_normalized [where adapter = "failing_server unauthorized_error" and err = unauthorized_error
      and rt = sample_runtime and m = GET and path = "''/auth/me''" and body = NoData
      and r = "?r" and z = "?body", OF rejects]
    transport_errors_normalized [where adapter = "failing_server network_error" and err = network_error
      and rt = sample_runtime and m = GET and path = "''/auth/me''" and body = NoData
      and r = "?r" and z = "?body", OF rejects]
    transport_errors_normalized [where adapter = "failing_server setup_error" and err = setup_error
      and rt = sample_runtime and m = GET and path = "''/auth/me''" and body = NoData
      and r = "?r" and z = "?body", OF rejects]
  show ?thesis
    by (simp add: client_get_def)
qed

text \<open>
  As the specification words it the message of the no-response case is
  \<open>Unable to reach the server\<close>. The client's message has a prefix.
\<close>

theorem transport_network_error_counterexample:
  "fst (client_get (failing_server network_error) ''/auth/me'' sample_runtime) =
     Inl (ZuthSDKError ''Network error: Unable to reach the server'' 0 ''NetworkError'' None) \<and>
   ''Network error: Unable to reach the server'' \<noteq> ''Unable to reach the server''"
  by code_simp

text \<open>
  Beyond the claims: an error response whose body is JSON \<open>null\<close> is not normalised.
  The interceptor reads \<open>.message\<close> of the null body, and the caller sees the
  engine's \<open>TypeError\<close>.
\<close>

theorem transport_null_body_TypeError:
  "fst (client_get (failing_server null_body_error) ''/auth/me'' sample_runtime) =
     Inl (TypeError ''Cannot read properties of null (reading 'message')'')"
  by code_simp

section \<open>The token slot\<close>

lemma install_token_nonempty:
  "access_token t \<noteq> [] \<Longrightarrow> accessToken (client (install_token t rt)) = Some (access_token t)"
  by (simp add: install_token_def client_setAccessToken_def)

lemma exchangeCodeForToken_installs:
  "exchangeCodeForToken adapter d rt = (Inr t, rt') \<Longrightarrow> access_token t \<noteq> [] \<Longrightarrow>
   accessToken (client rt') = Some (access_token t)"
  by (auto simp: exchangeCodeForToken_def install_token_nonempty split: prod.splits sum.splits)

lemma refreshToken_installs:
  "refreshToken adapter r cid rt = (Inr t, rt') \<Longrightarrow> access_token t \<noteq> [] \<Longrightarrow>
   accessToken (client rt') = Some (access_token t)"
  by (auto simp: refreshToken_def install_token_nonempty split: prod.splits sum.splits)

lemma login_installs:
  "login adapter d rt = (Inr lr, rt') \<Longrightarrow>
   accessToken (client rt') = Some (login_access_token lr)"
  by (auto simp: login_def Let_def client_setAccessToken_def
      split: if_splits prod.splits sum.splits)

lemma handleCallback_installs:
  "handleCallback new_URL adapter input cid secret redirect original rt = (Inr t, rt') \<Longrightarrow>
   access_token t \<noteq> [] \<Longrightarrow> accessToken (client rt') = Some (access_token t)"
  by (auto simp: handleCallback_def Let_def
      split: option.splits if_splits prod.splits sum.splits
      dest: exchangeCodeForToken_installs)

text \<open>
  Claim C5. For every configuration with a base URL the constructor succeeds and the
  new facade is not authenticated; it is not authenticated after \<open>clearAuth\<close>; it is
  authenticated after \<open>setAccessToken\<close>, after a login that succeeded, and after a
  code exchange (called directly or through \<open>handleCallback\<close>) or a refresh that
  succeeded with a non-empty access token. In each of these the slot then holds the
  token of the response: the operation installed it itself.
\<close>

theorem isAuthenticated_lifecycle:
  "(baseUrl cfg \<noteq> [] \<longrightarrow> (\<exists>rt. Zuth_new cfg = Inr rt \<and> \<not> Zuth_isAuthenticated rt)) \<and>
   \<not> Zuth_isAuthenticated (Zuth_clearAuth before) \<and>
   Zuth_isAuthenticated (Zuth_setAccessToken token before) \<and>
   (login login_adapter credentials before = (Inr lr, after_login) \<longrightarrow>
      Zuth_isAuthenticated after_login \<and>
      client_getAccessToken (client after_login) = Some (login_access_token lr)) \<and>
   (exchangeCodeForToken adapter d before = (Inr tok_x, after_exchange) \<and>
    access_token tok_x \<noteq> [] \<longrightarrow>
      Zuth_isAuthenticated after_exchange \<and>
      client_getAccessToken (client after_exchange) = Some (access_token tok_x)) \<and>
   (handleCallback new_URL adapter input cid secret redirect original before =
      (Inr tok_c, after_callback) \<and>
    access_token tok_c \<noteq> [] \<longrightarrow>
      Zuth_isAuthenticated after_callback \<and>
      client_getAccessToken (client after_callback) = Some (access_token tok_c)) \<and>
   (refreshToken adapter r cid' before = (Inr tok_r, after_refresh) \<and>
    access_token tok_r \<noteq> [] \<longrightarrow>
      Zuth_isAuthenticated after_refresh \<and>
      client_getAccessToken (client after_refresh) = Some (access_token tok_r))"
  by (auto simp: Zuth_isAuthenticated_def client_getAccessToken_def Zuth_new_def Let_def
      ZuthClient_new_def Zuth_clearAuth_def client_clearAccessToken_def Zuth_setAccessToken_def
      client_setAccessToken_def
      dest: login_installs exchangeCodeForToken_installs handleCallback_installs
        refreshToken_installs)

theorem isAuthenticated_lifecycle_witness:
  "Zuth_new sample_config = Inr sample_runtime \<and>
   \<not> Zuth_isAuthenticated sample_runtime \<and>
   \<not> Zuth_isAuthenticated (Zuth_clearAuth (Zuth_setAccessToken ''tok'' sample_runtime)) \<and>
   Zuth_isAuthenticated (Zuth_setAccessToken ''tok'' sample_runtime) \<and>
   Zuth_isAuthenticated (snd (login login_server sample_login sample_runtime)) \<and>
   Zuth_isAuthenticated (snd (exchangeCodeForToken token_server sample_exchange sample_runtime)) \<and>
   Zuth_isAuthenticated (snd (handleCallback sample_new_URL token_server
     ''https://app.test/cb?code=abc&state=S'' ''c1'' None None (Some ''S'') sample_runtime)) \<and>
   Zuth_isAuthenticated (snd (refreshToken token_server ''r1'' ''c1'' sample_runtime))"
proof -
  let ?lr = "\<lparr> login_access_token = ''tok456'', user = JNull, device = None \<rparr>"
  let ?login = "login login_server sample_login sample_runtime"
  let ?exchange = "exchangeCodeForToken token_server sample_exchange sample_runtime"
  let ?callback = "handleCallback sample_new_URL token_server
     ''https://app.test/cb?code=abc&state=S'' ''c1'' None None (Some ''S'') sample_runtime"
  let ?refresh = "refreshToken token_server ''r1'' ''c1'' sample_runtime"
  have new: "Zuth_new sample_config = Inr sample_runtime"
    by (simp add: Zuth_new_def sample_config_def sample_runtime_def remove_trailing_slash_def)
  have valid: "baseUrl sample_config \<noteq> []"
    by (simp add: sample_config_def)
  have "fst ?login = Inr ?lr"
    by code_simp
  then have logged_in: "?login = (Inr ?lr, snd ?login)"
    by (simp add: prod_eq_iff)
  have "fst ?exchange = Inr sample_token"
    by code_simp
  then have exchanged: "?exchange = (Inr sample_token, snd ?exchange)"
    by (simp add: prod_eq_iff)
  have "fst ?callback = Inr sample_token"
    by code_simp
  then have called_back: "?callback = (Inr sample_token, snd ?callback)"
    by (simp add: prod_eq_iff)
  have "fst ?refresh = Inr sample_token"
    by code_simp
  then have refreshed: "?refresh = (Inr sample_token, snd ?refresh)"
    by (simp add: prod_eq_iff)
  have nonempty: "access_token sample_token \<noteq> []"
    by (simp add: sample_token_def)
  from new valid logged_in exchanged called_back refreshed nonempty
    isAuthenticated_lifecycle [where cfg = sample_config and before = sample_runtime
      and token = "''tok''" and login_adapter = login_server and credentials = sample_login
      and lr = ?lr and after_login = "snd ?login" and adapter = token_server and d = sample_exchange
      and tok_x = sample_token and after_exchange = "snd ?exchange" and new_URL = sample_new_URL
      and input = "''https://app.test/cb?code=abc&state=S''" and cid = "''c1''"
      and secret = None and redirect = None and original = "Some ''S''"
      and tok_c = sample_token and after_callback = "snd ?callback" and r = "''r1''" and cid' = "''c1''"
      and tok_r = sample_token and after_refresh = "snd ?refresh"]
    isAuthenticated_lifecycle [where before = "Zuth_setAccessToken ''tok'' sample_runtime"
      and cfg = sample_config]
  show ?thesis
    by simp
qed

section \<open>The specification's scenarios\<close>

text \<open>
  Beyond the claims: with no allow list and no explicit state, the authorization URL for
  client \<open>c1\<close> and redirect URI \<open>https://app.test/cb\<close> carries the query the
  specification gives, ending in the 64 hexadecimal characters that are also returned
  as the state.
\<close>

theorem getAuthorizationUrl_scenario:
  "getAuthorizationUrl sample_new_URL sample_rnd sample_params None (client sample_runtime) =
   Inr \<lparr> url = ''https://auth.test/oauth/authorize?client_id=c1&redirect_uri=https%3A%2F%2Fapp.test%2Fcb&response_type=code&scope=openid+profile+email&state=0b30557a9fc4e90e33587da2c7ec11365b80a5caef14395e83a8cdf2173c6186'',
          result_state = ''0b30557a9fc4e90e33587da2c7ec11365b80a5caef14395e83a8cdf2173c6186'' \<rparr>"
  by code_simp

text \<open>
  Beyond the claims: a callback with a code and the right state succeeds, sends one
  request, the exchange of code \<open>abc\<close> at \<open>/oauth/token\<close>, and leaves the returned
  token in the client.
\<close>

theorem handleCallback_scenario:
  "handleCallback sample_new_URL token_server ''https://app.test/cb?code=abc&state=S'' ''c1''
     None None (Some ''S'') sample_runtime =
   (Inr sample_token,
    sample_runtime
      \<lparr> client := client_setAccessToken (Some ''tok123'') (client sample_runtime),
        dispatched :=
          [\<lparr> req_method = POST, req_baseURL = ''https://auth.test'', req_url = ''/oauth/token'',
             req_timeout = 30000, req_headers = [(''Content-Type'', ''application/json'')],
             data = TokenData sample_exchange ''authorization_code'' \<rparr>] \<rparr>)"
  by code_simp

end
